theory Spec2Isabelle
  imports Main "HOL-Library.Sublist"
begin

section \<open>Python values and the world outside the repository\<close>

text \<open>
  The chatbot exists twice in the repository: a standalone server (\<^verbatim>\<open>main.py\<close>) and a
  Lambda handler (\<^verbatim>\<open>lambda-functions/chatbot-lambda/index.py\<close>). Both are modelled here,
  function by function, under the names the source uses.

  A Python \<^verbatim>\<open>str\<close> is modelled as a \<^typ>\<open>string\<close> whose characters are the code points
  below 256; the string functions below agree with CPython on that range.

  A value that came out of \<^verbatim>\<open>json.loads\<close>, or that is built from literals, is a \<open>json\<close>.
  A dict is an association list read with \<^const>\<open>map_of\<close>; the keys of a well-formed dict
  are distinct. A float is identified by its \<^verbatim>\<open>repr()\<close> text, which determines it; the
  code never computes with one.
\<close>

datatype json =
    JNull
  | JBool bool
  | JInt int
  | JFloat string
  | JStr string
  | JArr "json list"
  | JObj "(string \<times> json) list"

type_synonym pydict = "(string \<times> json) list"

text \<open>
  Every \<^verbatim>\<open>try\<close> of the source catches \<^verbatim>\<open>Exception\<close>, so an exception is a value: the
  left summand of a result. \<open>ClientError\<close> stands for whatever a remote call or a parser
  raises; its argument identifies the failure.
\<close>

datatype py_exn =
    KeyError json
  | IndexError
  | TypeError
  | AttributeError
  | ValidationError
  | ClientError string

text \<open>
  What the code calls but the repository does not contain is a field of \<open>world\<close>: the two
  Bedrock clients, the process environment, the clock, and the behaviour of the interpreter
  and of the libraries where the code relies on it.

  \<^item> \<open>invoke_model w model_id body\<close> is \<^verbatim>\<open>bedrock_runtime.invoke_model(modelId=..., body=json.dumps(body))\<close>
    followed by \<^verbatim>\<open>json.loads(response['body'].read())\<close>: the parsed payload, or the exception
    raised on the way.
  \<^item> \<open>retrieve_and_generate w text kb_id model_arn\<close> is the knowledge-base call of the Lambda.
  \<^item> \<open>environ\<close> is \<^verbatim>\<open>os.environ\<close>; \<open>now_isoformat\<close> is \<^verbatim>\<open>datetime.now().isoformat()\<close>.
  \<^item> \<open>str_json\<close> is \<^verbatim>\<open>str(v)\<close> on a value that is not a \<^verbatim>\<open>str\<close>; \<open>str_exn\<close> is \<^verbatim>\<open>str(e)\<close>.
  \<^item> \<open>add_other\<close> is \<^verbatim>\<open>a + b\<close> on operands that are neither two lists nor two strings.
  \<^item> \<open>coerce_str\<close> is what pydantic makes of a value that is not a \<^verbatim>\<open>str\<close> in a
    field declared \<^verbatim>\<open>str\<close> (\<open>None\<close>: a validation error).
  \<^item> \<open>json_loads\<close> and \<open>json_dumps\<close> are the functions of the \<^verbatim>\<open>json\<close> module.
\<close>

record world =
  invoke_model :: "string \<Rightarrow> json \<Rightarrow> py_exn + json"
  retrieve_and_generate :: "json \<Rightarrow> string \<Rightarrow> string \<Rightarrow> py_exn + json"
  environ :: "string \<rightharpoonup> string"
  now_isoformat :: string
  str_json :: "json \<Rightarrow> string"
  str_exn :: "py_exn \<Rightarrow> string"
  add_other :: "json \<Rightarrow> json \<Rightarrow> py_exn + json"
  coerce_str :: "json \<Rightarrow> string option"
  json_loads :: "string \<Rightarrow> py_exn + json"
  json_dumps :: "json \<Rightarrow> string"

section \<open>String operations\<close>

text \<open>\<^verbatim>\<open>str.lower()\<close>: below 256 the cased code points are A-Z and U+00C0-U+00DE without
  U+00D7, each 32 below its lower-case form.\<close>

definition char_lower :: "char \<Rightarrow> char" where
  "char_lower c =
     (let n = (of_char c :: nat)
      in if (65 \<le> n \<and> n \<le> 90) \<or> (192 \<le> n \<and> n \<le> 222 \<and> n \<noteq> 215)
         then char_of (n + 32) else c)"

definition lower :: "string \<Rightarrow> string" where
  "lower s = map char_lower s"

text \<open>\<^verbatim>\<open>w in s\<close> on two strings: \<open>w\<close> occurs in \<open>s\<close> as a contiguous run.\<close>

fun str_in :: "string \<Rightarrow> string \<Rightarrow> bool" where
  "str_in w [] = (w = [])"
| "str_in w (c # cs) = (prefix w (c # cs) \<or> str_in w cs)"

text \<open>\<^verbatim>\<open>str.isspace\<close> on one code point below 256, and \<^verbatim>\<open>str.strip()\<close>.\<close>

definition isspace :: "char \<Rightarrow> bool" where
  "isspace c =
     (let n = (of_char c :: nat)
      in (9 \<le> n \<and> n \<le> 13) \<or> (28 \<le> n \<and> n \<le> 32) \<or> n = 133 \<or> n = 160)"

definition strip :: "string \<Rightarrow> string" where
  "strip s = rev (dropWhile isspace (rev (dropWhile isspace s)))"

text \<open>\<^verbatim>\<open>s.split(sep)\<close> for a one-character separator; the result is never empty, so
  \<^verbatim>\<open>[-1]\<close> on it is \<^const>\<open>last\<close>.\<close>

fun split_on :: "char \<Rightarrow> string \<Rightarrow> string list" where
  "split_on sep [] = [[]]"
| "split_on sep (c # cs) =
     (if c = sep then [] # split_on sep cs
      else (case split_on sep cs of
              [] \<Rightarrow> [[c]]
            | p # ps \<Rightarrow> (c # p) # ps))"

section \<open>main.py: the query classifier\<close>

definition rules_keywords :: "string list" where
  "rules_keywords =
     [''rulebook'', ''regulation'', ''legal'', ''allowed'', ''requirement'', ''spec'', ''rule'']"

definition dynamic_keywords :: "string list" where
  "dynamic_keywords =
     [''part'', ''price'', ''schedule'', ''race'', ''event'', ''upcoming'', ''cost'']"

definition hybrid_keywords :: "string list" where
  "hybrid_keywords = [''build'', ''car'', ''setup'', ''recommend'']"

definition classify_query :: "string \<Rightarrow> string" where
  "classify_query message =
     (let message_lower = lower message
      in if list_ex (\<lambda>word. str_in word message_lower) hybrid_keywords then ''hybrid''
         else if list_ex (\<lambda>word. str_in word message_lower) rules_keywords then ''rules''
         else if list_ex (\<lambda>word. str_in word message_lower) dynamic_keywords
              then ''parts_or_schedule''
         else ''general'')"

section \<open>Operations on Python values\<close>

text \<open>Sequencing inside a \<^verbatim>\<open>try\<close> block: the first exception ends the block.\<close>

definition and_then :: "'e + 'a \<Rightarrow> ('a \<Rightarrow> 'e + 'b) \<Rightarrow> 'e + 'b" where
  "and_then r f = (case r of Inl e \<Rightarrow> Inl e | Inr v \<Rightarrow> f v)"

text \<open>\<^verbatim>\<open>v[k]\<close> for a string key: only a dict can be subscripted with a string.\<close>

fun getitem_key :: "json \<Rightarrow> string \<Rightarrow> py_exn + json" where
  "getitem_key (JObj kvs) k =
     (case map_of kvs k of None \<Rightarrow> Inl (KeyError (JStr k)) | Some v \<Rightarrow> Inr v)"
| "getitem_key v k = Inl TypeError"

text \<open>\<^verbatim>\<open>v[0]\<close>: the first element of a list, the first character of a string; a dict
  parsed from JSON has string keys only, so \<open>0\<close> is never one of them.\<close>

fun getitem_0 :: "json \<Rightarrow> py_exn + json" where
  "getitem_0 (JArr xs) = (case xs of [] \<Rightarrow> Inl IndexError | x # _ \<Rightarrow> Inr x)"
| "getitem_0 (JStr s) = (case s of [] \<Rightarrow> Inl IndexError | c # _ \<Rightarrow> Inr (JStr [c]))"
| "getitem_0 (JObj kvs) = Inl (KeyError (JInt 0))"
| "getitem_0 v = Inl TypeError"

text \<open>\<^verbatim>\<open>k in v\<close> for a string \<open>k\<close>: a key of a dict, an element of a list, a substring of
  a string.\<close>

fun py_in :: "string \<Rightarrow> json \<Rightarrow> py_exn + bool" where
  "py_in k (JObj kvs) = Inr (k \<in> set (map fst kvs))"
| "py_in k (JArr xs) = Inr (JStr k \<in> set xs)"
| "py_in k (JStr s) = Inr (str_in k s)"
| "py_in k v = Inl TypeError"

fun py_len :: "json \<Rightarrow> py_exn + nat" where
  "py_len (JObj kvs) = Inr (length kvs)"
| "py_len (JArr xs) = Inr (length xs)"
| "py_len (JStr s) = Inr (length s)"
| "py_len v = Inl TypeError"

text \<open>The truth value of a value, as \<^verbatim>\<open>not v\<close> and \<^verbatim>\<open>if v\<close> take it.\<close>

fun truthy :: "json \<Rightarrow> bool" where
  "truthy JNull = False"
| "truthy (JBool b) = b"
| "truthy (JInt i) = (i \<noteq> 0)"
| "truthy (JFloat r) = (r \<noteq> ''0.0'' \<and> r \<noteq> ''-0.0'')"
| "truthy (JStr s) = (s \<noteq> [])"
| "truthy (JArr xs) = (xs \<noteq> [])"
| "truthy (JObj kvs) = (kvs \<noteq> [])"

text \<open>\<^verbatim>\<open>d.get(k, default)\<close> on a dict, and on any value (only a dict has \<^verbatim>\<open>get\<close>).\<close>

definition dict_get :: "pydict \<Rightarrow> string \<Rightarrow> json \<Rightarrow> json" where
  "dict_get d k dflt = (case map_of d k of None \<Rightarrow> dflt | Some v \<Rightarrow> v)"

fun py_get :: "json \<Rightarrow> string \<Rightarrow> json \<Rightarrow> py_exn + json" where
  "py_get (JObj kvs) k dflt = Inr (dict_get kvs k dflt)"
| "py_get v k dflt = Inl AttributeError"

text \<open>\<^verbatim>\<open>str(v)\<close>, which is also what an f-string puts in place of \<^verbatim>\<open>{v}\<close>.\<close>

definition py_str :: "world \<Rightarrow> json \<Rightarrow> string" where
  "py_str w v = (case v of JStr s \<Rightarrow> s | _ \<Rightarrow> str_json w v)"

text \<open>\<^verbatim>\<open>a + b\<close>.\<close>

fun py_add :: "world \<Rightarrow> json \<Rightarrow> json \<Rightarrow> py_exn + json" where
  "py_add w (JArr xs) (JArr ys) = Inr (JArr (xs @ ys))"
| "py_add w (JStr s) (JStr t) = Inr (JStr (s @ t))"
| "py_add w a b = add_other w a b"

text \<open>\<^verbatim>\<open>json.loads(v)\<close>: the argument has to be a string.\<close>

fun loads :: "world \<Rightarrow> json \<Rightarrow> py_exn + json" where
  "loads w (JStr s) = json_loads w s"
| "loads w v = Inl TypeError"

text \<open>\<^verbatim>\<open>result['content'][0]['text']\<close>, the first text segment of a model reply.\<close>

definition first_text :: "json \<Rightarrow> py_exn + json" where
  "first_text result =
     and_then (getitem_key result ''content'') (\<lambda>content.
     and_then (getitem_0 content) (\<lambda>segment.
       getitem_key segment ''text''))"

section \<open>main.py: the source queriers\<close>

text \<open>A querier returns a dict with the keys \<open>answer\<close> and \<open>sources\<close>. The whole body of
  each is a \<^verbatim>\<open>try\<close>; the \<^verbatim>\<open>except\<close> branch builds the dict of the failure.\<close>

text \<open>The \<^verbatim>\<open>try\<close> block of \<^verbatim>\<open>_query_knowledge_base\<close>: the remote call and the extraction of
  the text from its reply.\<close>

definition knowledge_base_reply :: "world \<Rightarrow> string \<Rightarrow> py_exn + json" where
  "knowledge_base_reply w message =
     and_then
       (invoke_model w ''anthropic.claude-3-sonnet-20240229-v1:0''
          (JObj [(''anthropic_version'', JStr ''bedrock-2023-05-31''),
                 (''max_tokens'', JInt 1000),
                 (''messages'', JArr [JObj
                    [(''role'', JStr ''user''),
                     (''content'', JStr
                        (''Based on the Spec3 racing rulebook and documentation, please answer: ''
                         @ message))]])]))
       first_text"

definition query_knowledge_base :: "world \<Rightarrow> string \<Rightarrow> pydict" where
  "query_knowledge_base w message =
     (case knowledge_base_reply w message of
        Inr text \<Rightarrow> [(''answer'', text), (''sources'', JArr [JStr ''Spec3 Rulebook''])]
      | Inl e \<Rightarrow> [(''answer'', JStr (''Error querying knowledge base: '' @ str_exn w e)),
                  (''sources'', JArr [])])"

text \<open>The placeholder querier: nothing in its \<^verbatim>\<open>try\<close> block can raise.\<close>

definition query_mcp_server :: "string \<Rightarrow> pydict" where
  "query_mcp_server message =
     [(''answer'', JStr (''MCP query result for: '' @ message
                         @ '' (placeholder - implement MCP client)'')),
      (''sources'', JArr [JStr ''Google Sheets via MCP''])]"

text \<open>The two coroutines share no state and \<^verbatim>\<open>asyncio.gather\<close> returns their results in
  the order of its arguments, so the join is the pair of the two results. The template is
  the triple-quoted f-string of the source: a line break, then three lines indented by twelve
  spaces (the second one empty), then the indentation of the closing quotes.\<close>

definition query_both_sources :: "world \<Rightarrow> string \<Rightarrow> pydict" where
  "query_both_sources w message =
     (let rules_response = query_knowledge_base w message;
          data_response = query_mcp_server message
      in case
           and_then (getitem_key (JObj rules_response) ''answer'') (\<lambda>rules_answer.
           and_then (getitem_key (JObj data_response) ''answer'') (\<lambda>data_answer.
           let combined_answer =
                 [CHR 0x0A] @ ''            Based on the rules: '' @ py_str w rules_answer
                 @ [CHR 0x0A] @ ''            ''
                 @ [CHR 0x0A] @ ''            Current data: '' @ py_str w data_answer
                 @ [CHR 0x0A] @ ''            ''
           in
           and_then (getitem_key (JObj rules_response) ''sources'') (\<lambda>rules_sources.
           and_then (getitem_key (JObj data_response) ''sources'') (\<lambda>data_sources.
           and_then (py_add w rules_sources data_sources) (\<lambda>all_sources.
             Inr [(''answer'', JStr (strip combined_answer)),
                  (''sources'', all_sources)])))))
         of Inr d \<Rightarrow> d
          | Inl e \<Rightarrow> [(''answer'', JStr (''Error querying multiple sources: '' @ str_exn w e)),
                      (''sources'', JArr [])])"

definition handle_general_query :: "world \<Rightarrow> string \<Rightarrow> pydict" where
  "handle_general_query w message =
     (case and_then
             (invoke_model w ''anthropic.claude-3-sonnet-20240229-v1:0''
                (JObj [(''anthropic_version'', JStr ''bedrock-2023-05-31''),
                       (''max_tokens'', JInt 500),
                       (''messages'', JArr [JObj
                          [(''role'', JStr ''user''),
                           (''content'', JStr
                              (''You are a helpful assistant for Spec3 racing. Answer this question: ''
                               @ message))]])]))
             first_text
      of Inr text \<Rightarrow> [(''answer'', text), (''sources'', JArr [JStr ''General Spec3 Knowledge''])]
       | Inl e \<Rightarrow>
           [(''answer'', JStr
               (''I'' @ [CHR 0x27]
                @ ''m here to help with Spec3 racing questions! Could you be more specific?'')),
            (''sources'', JArr [])])"

section \<open>main.py: the orchestrator\<close>

text \<open>\<^verbatim>\<open>ChatResponse\<close> is a pydantic model: \<open>response\<close> a \<^verbatim>\<open>str\<close>, \<open>sources\<close> a
  \<^verbatim>\<open>list\<close> (default empty), \<open>timestamp\<close> a \<^verbatim>\<open>str\<close> with default \<^verbatim>\<open>None\<close>. Building one
  validates the fields; of the values here only a JSON array is a list.\<close>

record chat_response =
  response :: string
  sources :: "json list"
  timestamp :: "string option"

definition as_str :: "world \<Rightarrow> json \<Rightarrow> string option" where
  "as_str w v = (case v of JStr s \<Rightarrow> Some s | _ \<Rightarrow> coerce_str w v)"

definition ChatResponse :: "world \<Rightarrow> json \<Rightarrow> json \<Rightarrow> string \<Rightarrow> py_exn + chat_response" where
  "ChatResponse w r s t =
     (case as_str w r of
        None \<Rightarrow> Inl ValidationError
      | Some text \<Rightarrow>
          (case s of
             JArr xs \<Rightarrow> Inr \<lparr>response = text, sources = xs, timestamp = Some t\<rparr>
           | _ \<Rightarrow> Inl ValidationError))"

text \<open>The first half of \<^verbatim>\<open>process_message\<close>: the querier chosen by the intent.\<close>

definition provider_result :: "world \<Rightarrow> string \<Rightarrow> pydict" where
  "provider_result w message =
     (let query_type = classify_query message
      in if query_type = ''rules'' then query_knowledge_base w message
         else if query_type = ''parts_or_schedule'' then query_mcp_server message
         else if query_type = ''hybrid'' then query_both_sources w message
         else handle_general_query w message)"

text \<open>The second half: the \<^verbatim>\<open>ChatResponse\<close> built from the querier's dict.\<close>

definition to_chat_response :: "world \<Rightarrow> pydict \<Rightarrow> py_exn + chat_response" where
  "to_chat_response w d =
     ChatResponse w
       (dict_get d ''answer'' (JStr ''Sorry, I could not find an answer.''))
       (dict_get d ''sources'' (JArr []))
       (now_isoformat w)"

definition process_message :: "world \<Rightarrow> string \<Rightarrow> string \<Rightarrow> py_exn + chat_response" where
  "process_message w message session_id = to_chat_response w (provider_result w message)"

text \<open>\<^verbatim>\<open>ChatMessage\<close> is the request model: \<open>message\<close>, a required \<^verbatim>\<open>str\<close>, and
  \<open>session_id\<close>, a \<^verbatim>\<open>str\<close> with default \<^verbatim>\<open>"default"\<close>; \<open>ChatMessage_of\<close> builds it from the
  fields of a request. The endpoint turns an exception into an HTTP error 500.\<close>

datatype chat_message = ChatMessage string string

datatype http_error = HTTPException int string

definition ChatMessage_of :: "world \<Rightarrow> pydict \<Rightarrow> py_exn + chat_message" where
  "ChatMessage_of w request =
     (case map_of request ''message'' of
        None \<Rightarrow> Inl ValidationError
      | Some m \<Rightarrow>
          (case (as_str w m, as_str w (dict_get request ''session_id'' (JStr ''default''))) of
             (Some message, Some session_id) \<Rightarrow> Inr (ChatMessage message session_id)
           | _ \<Rightarrow> Inl ValidationError))"

fun chat_endpoint :: "world \<Rightarrow> chat_message \<Rightarrow> http_error + chat_response" where
  "chat_endpoint w (ChatMessage message session_id) =
     (case process_message w message session_id of
        Inr r \<Rightarrow> Inr r
      | Inl e \<Rightarrow> Inl (HTTPException 500 (str_exn w e)))"

section \<open>lambda-functions/chatbot-lambda/index.py\<close>

text \<open>The model identifier derived from \<^verbatim>\<open>MODEL_ARN\<close>. The source has these lines twice,
  character for character, in \<^verbatim>\<open>process_message\<close> (which only logs the result) and in
  \<^verbatim>\<open>fallback_response\<close> (which invokes the model under it).\<close>

definition extract_model_id :: "string \<Rightarrow> string" where
  "extract_model_id model_arn =
     (if prefix ''arn:aws:bedrock:'' model_arn
      then (if str_in ''inference-profile'' model_arn
            then ''us.amazon.nova-premier-v1:0''
            else last (split_on (CHR ''/'') model_arn))
      else model_arn)"

text \<open>\<^verbatim>\<open>os.environ.get(k, '')\<close>.\<close>

definition environ_get :: "world \<Rightarrow> string \<Rightarrow> string" where
  "environ_get w k = (case environ w k of None \<Rightarrow> [] | Some v \<Rightarrow> v)"

text \<open>The two request shapes of \<^verbatim>\<open>fallback_response\<close>, the parsing of a reply on its
  Nova branch, and the text of its \<^verbatim>\<open>except\<close> branch. The message comes out of the parsed
  request and may be any value.\<close>

definition nova_request :: "json \<Rightarrow> json" where
  "nova_request message =
     JObj [(''messages'', JArr [JObj [(''role'', JStr ''user''), (''content'', message)]]),
           (''maxTokens'', JInt 1000),
           (''temperature'', JFloat ''0.7''),
           (''topP'', JFloat ''0.9'')]"

definition claude_request :: "json \<Rightarrow> json" where
  "claude_request message =
     JObj [(''anthropic_version'', JStr ''bedrock-2023-05-31''),
           (''max_tokens'', JInt 1000),
           (''messages'', JArr [JObj [(''role'', JStr ''user''), (''content'', message)]])]"

definition parse_nova :: "world \<Rightarrow> json \<Rightarrow> py_exn + json" where
  "parse_nova w response_body =
     and_then (py_in ''content'' response_body) (\<lambda>has_content.
     and_then (if has_content
               then and_then (getitem_key response_body ''content'') (\<lambda>content.
                    and_then (py_len content) (\<lambda>n. Inr (n > 0)))
               else Inr False) (\<lambda>content_filled.
       if content_filled then first_text response_body
       else
         and_then (py_in ''completion'' response_body) (\<lambda>has_completion.
           if has_completion then getitem_key response_body ''completion''
           else Inr (JStr (py_str w response_body)))))"

definition apology :: "world \<Rightarrow> py_exn \<Rightarrow> json" where
  "apology w e =
     JStr (''I apologize, but I'' @ [CHR 0x27]
           @ ''m having trouble processing your request right now. Error: ''
           @ str_exn w e)"

text \<open>The function returns what it found in the reply, or the apology; its \<^verbatim>\<open>try\<close> covers
  the whole body and its \<^verbatim>\<open>except\<close> branch cannot raise, so it always returns.\<close>

definition fallback_response :: "world \<Rightarrow> json \<Rightarrow> json" where
  "fallback_response w message =
     (let model_arn = environ_get w ''MODEL_ARN'';
          model_id = extract_model_id model_arn;
          request_body = (if str_in ''nova-premier'' model_id then nova_request message
                          else claude_request message)
      in case
           and_then (invoke_model w model_id request_body) (\<lambda>response_body.
             if str_in ''nova-premier'' model_id then parse_nova w response_body
             else first_text response_body)
         of Inr result \<Rightarrow> result
          | Inl e \<Rightarrow> apology w e)"

text \<open>The Lambda's own \<^verbatim>\<open>process_message\<close>. The prompt template, the number of results
  and the configuration type of the knowledge-base call are constants of the source; the
  call varies in the text, the knowledge-base identifier and the model ARN.\<close>

definition process_message_lambda :: "world \<Rightarrow> json \<Rightarrow> json \<Rightarrow> json" where
  "process_message_lambda w message session_id =
     (let model_arn = environ_get w ''MODEL_ARN'';
          knowledge_base_id = environ_get w ''KNOWLEDGE_BASE_ID''
      in if \<not> truthy (JStr knowledge_base_id) \<or> knowledge_base_id = []
         then fallback_response w message
         else (case and_then (retrieve_and_generate w message knowledge_base_id model_arn)
                      (\<lambda>kb_response.
                         and_then (getitem_key kb_response ''output'') (\<lambda>output.
                           getitem_key output ''text''))
               of Inr text \<Rightarrow> text
                | Inl e \<Rightarrow> fallback_response w message))"

record lambda_response =
  statusCode :: int
  headers :: "(string \<times> string) list"
  body :: string

definition handler :: "world \<Rightarrow> json \<Rightarrow> lambda_response" where
  "handler w event =
     (case
        and_then (py_get event ''body'' (JStr ''{}'')) (\<lambda>raw.
        and_then (loads w raw) (\<lambda>parsed.
        and_then (py_get parsed ''message'' (JStr [])) (\<lambda>user_message.
        and_then (py_get parsed ''session_id'' (JStr ''default'')) (\<lambda>session_id.
        and_then (if \<not> truthy user_message
                  then and_then (py_in ''messages'' event) (\<lambda>has_messages.
                         if has_messages then py_get event ''messages'' (JStr [])
                         else Inr user_message)
                  else Inr user_message) (\<lambda>user_message.
          Inr \<lparr>statusCode = 200,
               headers = [(''Content-Type'', ''application/json''),
                          (''Access-Control-Allow-Origin'', ''*''),
                          (''Access-Control-Allow-Headers'', ''Content-Type''),
                          (''Access-Control-Allow-Methods'', ''POST, OPTIONS'')],
               body = json_dumps w (JObj
                        [(''response'', process_message_lambda w user_message session_id),
                         (''session_id'', session_id)])\<rparr>)))))
      of Inr r \<Rightarrow> r
       | Inl e \<Rightarrow>
           \<lparr>statusCode = 500,
            headers = [(''Content-Type'', ''application/json''),
                       (''Access-Control-Allow-Origin'', ''*'')],
            body = json_dumps w (JObj [(''error'', JStr (str_exn w e))])\<rparr>)"

section \<open>Worlds to evaluate in\<close>

text \<open>A world in which every remote call times out, and variations of it. Its \<open>str_exn\<close>
  gives a \<^verbatim>\<open>KeyError\<close> on a string key the text Python gives it, the key in quotes.\<close>

definition down :: world where
  "down =
     \<lparr>invoke_model = (\<lambda>model_id request. Inl (ClientError ''timed out'')),
      retrieve_and_generate = (\<lambda>text kb arn. Inl (ClientError ''timed out'')),
      environ = Map.empty,
      now_isoformat = ''2024-05-01T12:00:00'',
      str_json = (\<lambda>v. if v = JObj [] then ''{}'' else ''<value>''),
      str_exn = (\<lambda>e. case e of
                        ClientError s \<Rightarrow> s
                      | KeyError (JStr k) \<Rightarrow> [CHR 0x27] @ k @ [CHR 0x27]
                      | _ \<Rightarrow> ''<error>''),
      add_other = (\<lambda>a b. Inl TypeError),
      coerce_str = (\<lambda>v. None),
      json_loads = (\<lambda>s. Inl (ClientError ''Expecting value'')),
      json_dumps = (\<lambda>v. ''<json>'')\<rparr>"

text \<open>The model answers every request with the payload \<open>p\<close>.\<close>

definition answering :: "json \<Rightarrow> world" where
  "answering p = down\<lparr>invoke_model := (\<lambda>model_id request. Inr p)\<rparr>"

text \<open>A Claude-format payload whose first segment carries the text \<open>t\<close>.\<close>

definition claude_payload :: "string \<Rightarrow> json" where
  "claude_payload t = JObj [(''content'', JArr [JObj [(''type'', JStr ''text''),
                                                     (''text'', JStr t)]])]"

text \<open>The world \<open>w\<close> with the environment variable \<open>k\<close> set to \<open>v\<close>.\<close>

definition with_env :: "string \<Rightarrow> string \<Rightarrow> world \<Rightarrow> world" where
  "with_env k v w = w\<lparr>environ := (environ w)(k \<mapsto> v)\<rparr>"

text \<open>The world \<open>w\<close> in which \<^verbatim>\<open>json.loads\<close> parses the text \<open>raw\<close> to the value \<open>v\<close>.\<close>

definition with_parse :: "string \<Rightarrow> json \<Rightarrow> world \<Rightarrow> world" where
  "with_parse raw v w = w\<lparr>json_loads := (json_loads w)(raw := Inr v)\<rparr>"

text \<open>Two request bodies: \<^verbatim>\<open>{"message": "Hello"}\<close> and
  \<^verbatim>\<open>{"message": "Hello", "session_id": "abc-123"}\<close>, the double quote written as its code.\<close>

definition hello_body :: string where
  "hello_body = ''{'' @ [CHR 0x22] @ ''message'' @ [CHR 0x22] @ '': ''
                @ [CHR 0x22] @ ''Hello'' @ [CHR 0x22] @ ''}''"

definition hello_session_body :: string where
  "hello_session_body =
     ''{'' @ [CHR 0x22] @ ''message'' @ [CHR 0x22] @ '': '' @ [CHR 0x22] @ ''Hello'' @ [CHR 0x22]
     @ '', '' @ [CHR 0x22] @ ''session_id'' @ [CHR 0x22] @ '': ''
     @ [CHR 0x22] @ ''abc-123'' @ [CHR 0x22] @ ''}''"

section \<open>Vocabulary of the specification\<close>

text \<open>The specification speaks of a text that contains a keyword of a list. Containment is
  the library's \<^const>\<open>sublist\<close>: the keyword is a contiguous part of the text.\<close>

definition contains_keyword :: "string list \<Rightarrow> string \<Rightarrow> bool" where
  "contains_keyword ks t = (\<exists>k \<in> set ks. sublist k t)"

section \<open>Facts about the string operations\<close>

lemmas char_eval = char_lower_def isspace_def char_of_def bit_Suc_0_iff

lemma str_in_sublist: "str_in w s = sublist w s"
  by (induction s) (auto simp: sublist_Cons_right)

lemma list_ex_str_in: "list_ex (\<lambda>word. str_in word t) ks = contains_keyword ks t"
  by (simp add: list_ex_iff str_in_sublist contains_keyword_def)

lemma lower_append: "lower (xs @ ys) = lower xs @ lower ys"
  by (simp add: lower_def)

lemma split_on_not_Nil: "split_on sep s \<noteq> []"
  by (induction s) (auto split: list.splits)

section \<open>The classifier\<close>

text \<open>The classifier as a decision on the lower-cased text, the keyword lists written out.\<close>

lemma classify_query_chain:
  "classify_query message =
     (if contains_keyword [''build'', ''car'', ''setup'', ''recommend''] (lower message)
      then ''hybrid''
      else if contains_keyword [''rulebook'', ''regulation'', ''legal'', ''allowed'',
                ''requirement'', ''spec'', ''rule''] (lower message)
      then ''rules''
      else if contains_keyword [''part'', ''price'', ''schedule'', ''race'', ''event'',
                ''upcoming'', ''cost''] (lower message)
      then ''parts_or_schedule''
      else ''general'')"
  unfolding classify_query_def Let_def hybrid_keywords_def rules_keywords_def
    dynamic_keywords_def list_ex_str_in
  by (rule refl)

lemma contains_keyword_simps:
  "contains_keyword [] t = False"
  "contains_keyword (k # ks) t = (str_in k t \<or> contains_keyword ks t)"
  by (simp_all add: contains_keyword_def str_in_sublist)

lemma contains_keywordI: "k \<in> set ks \<Longrightarrow> t = pre @ k @ suf \<Longrightarrow> contains_keyword ks t"
  unfolding contains_keyword_def sublist_def by blast

text \<open>
  Claim C1. A message whose lower-cased text contains one of the hybrid keywords
  \<open>build\<close>, \<open>car\<close>, \<open>setup\<close>, \<open>recommend\<close> is classified \<open>hybrid\<close>, whatever rules or dynamic
  keywords it contains as well. The lists are tried in the order hybrid, rules, dynamic, and
  the first list with a keyword in the text decides: \<open>hybrid\<close>, \<open>rules\<close>,
  \<open>parts_or_schedule\<close>; with no keyword at all the intent is \<open>general\<close>.
\<close>

theorem classify_hybrid_precedence:
  fixes message :: string
  defines "t \<equiv> lower message"
  defines "hyb \<equiv> contains_keyword [''build'', ''car'', ''setup'', ''recommend''] t"
  defines "rul \<equiv> contains_keyword [''rulebook'', ''regulation'', ''legal'', ''allowed'',
                     ''requirement'', ''spec'', ''rule''] t"
  defines "dyn \<equiv> contains_keyword [''part'', ''price'', ''schedule'', ''race'', ''event'',
                     ''upcoming'', ''cost''] t"
  shows "(hyb \<longrightarrow> classify_query message = ''hybrid'') \<and>
         (\<not> hyb \<and> rul \<longrightarrow> classify_query message = ''rules'') \<and>
         (\<not> hyb \<and> \<not> rul \<and> dyn \<longrightarrow> classify_query message = ''parts_or_schedule'') \<and>
         (\<not> hyb \<and> \<not> rul \<and> \<not> dyn \<longrightarrow> classify_query message = ''general'')"
  unfolding hyb_def rul_def dyn_def t_def classify_query_chain [of message]
  by simp

text \<open>A message with a keyword of each list is \<open>hybrid\<close>; the four messages of the
  specification's example get the four intents.\<close>

theorem classify_hybrid_precedence_witness:
  "contains_keyword [''build'', ''car'', ''setup'', ''recommend'']
     (lower ''Is my Car LEGAL, and what is the price?'') \<and>
   contains_keyword [''rulebook'', ''regulation'', ''legal'', ''allowed'', ''requirement'',
     ''spec'', ''rule''] (lower ''Is my Car LEGAL, and what is the price?'') \<and>
   contains_keyword [''part'', ''price'', ''schedule'', ''race'', ''event'', ''upcoming'',
     ''cost''] (lower ''Is my Car LEGAL, and what is the price?'') \<and>
   classify_query ''Is my Car LEGAL, and what is the price?'' = ''hybrid'' \<and>
   classify_query ''Help me build a car setup'' = ''hybrid'' \<and>
   classify_query ''What is the rule for legal tires?'' = ''rules'' \<and>
   classify_query ''What is the price of a part?'' = ''parts_or_schedule'' \<and>
   classify_query ''Hello'' = ''general''"
  using classify_hybrid_precedence [of "''Is my Car LEGAL, and what is the price?''"]
    classify_hybrid_precedence [of "''Help me build a car setup''"]
    classify_hybrid_precedence [of "''What is the rule for legal tires?''"]
    classify_hybrid_precedence [of "''What is the price of a part?''"]
    classify_hybrid_precedence [of "''Hello''"]
  by (simp add: contains_keyword_simps lower_def char_eval)

text \<open>
  Claim C8. A message whose lower-cased text contains no keyword of the hybrid, rules or
  dynamic list is classified \<open>general\<close>.
\<close>

theorem classify_no_keyword_general:
  assumes "\<not> contains_keyword
             [''build'', ''car'', ''setup'', ''recommend'',
              ''rulebook'', ''regulation'', ''legal'', ''allowed'', ''requirement'', ''spec'',
              ''rule'',
              ''part'', ''price'', ''schedule'', ''race'', ''event'', ''upcoming'', ''cost'']
             (lower message)"
  shows "classify_query message = ''general''"
  using assms unfolding classify_query_chain [of message] contains_keyword_def by simp

theorem classify_no_keyword_general_witness:
  "\<not> contains_keyword
             [''build'', ''car'', ''setup'', ''recommend'',
              ''rulebook'', ''regulation'', ''legal'', ''allowed'', ''requirement'', ''spec'',
              ''rule'',
              ''part'', ''price'', ''schedule'', ''race'', ''event'', ''upcoming'', ''cost'']
             (lower ''Hello THERE'')
   \<and> classify_query ''Hello THERE'' = ''general''"
  using classify_no_keyword_general [of "''Hello THERE''"]
  by (simp add: contains_keyword_simps lower_def char_eval)

text \<open>
  Claim C9. Keywords are matched as substrings of the lower-cased message, not as whole
  words: a keyword that stands anywhere in the text, with any characters before and after
  it, classifies the message by its list under the precedence hybrid, rules, dynamic. So
  \<open>card\<close> is \<open>hybrid\<close> through \<open>car\<close>, and \<open>apartment\<close> is \<open>parts_or_schedule\<close> through
  \<open>part\<close>.
\<close>

theorem classify_substring_containment:
  "(k \<in> set [''build'', ''car'', ''setup'', ''recommend''] \<and> lower message = pre @ k @ suf
      \<longrightarrow> classify_query message = ''hybrid'') \<and>
   (k \<in> set [''rulebook'', ''regulation'', ''legal'', ''allowed'', ''requirement'', ''spec'',
              ''rule''] \<and> lower message = pre @ k @ suf \<and>
    \<not> contains_keyword [''build'', ''car'', ''setup'', ''recommend''] (lower message)
      \<longrightarrow> classify_query message = ''rules'') \<and>
   (k \<in> set [''part'', ''price'', ''schedule'', ''race'', ''event'', ''upcoming'', ''cost''] \<and>
    lower message = pre @ k @ suf \<and>
    \<not> contains_keyword [''build'', ''car'', ''setup'', ''recommend''] (lower message) \<and>
    \<not> contains_keyword [''rulebook'', ''regulation'', ''legal'', ''allowed'', ''requirement'',
                          ''spec'', ''rule''] (lower message)
      \<longrightarrow> classify_query message = ''parts_or_schedule'') \<and>
   classify_query ''card'' = ''hybrid'' \<and>
   classify_query ''apartment'' = ''parts_or_schedule''"
proof (intro conjI impI)
  assume "k \<in> set [''build'', ''car'', ''setup'', ''recommend''] \<and> lower message = pre @ k @ suf"
  then have "contains_keyword [''build'', ''car'', ''setup'', ''recommend''] (lower message)"
    by (blast intro: contains_keywordI)
  then show "classify_query message = ''hybrid''"
    by (simp add: classify_query_chain [of message])
next
  assume a: "k \<in> set [''rulebook'', ''regulation'', ''legal'', ''allowed'', ''requirement'',
              ''spec'', ''rule''] \<and> lower message = pre @ k @ suf \<and>
    \<not> contains_keyword [''build'', ''car'', ''setup'', ''recommend''] (lower message)"
  then have "contains_keyword [''rulebook'', ''regulation'', ''legal'', ''allowed'',
               ''requirement'', ''spec'', ''rule''] (lower message)"
    by (blast intro: contains_keywordI)
  moreover from a
  have "\<not> contains_keyword [''build'', ''car'', ''setup'', ''recommend''] (lower message)"
    by (rule conjunct2 [THEN conjunct2])
  ultimately show "classify_query message = ''rules''"
    unfolding classify_query_chain [of message] by (simp only: if_True if_False)
next
  assume a: "k \<in> set [''part'', ''price'', ''schedule'', ''race'', ''event'', ''upcoming'',
               ''cost''] \<and>
    lower message = pre @ k @ suf \<and>
    \<not> contains_keyword [''build'', ''car'', ''setup'', ''recommend''] (lower message) \<and>
    \<not> contains_keyword [''rulebook'', ''regulation'', ''legal'', ''allowed'', ''requirement'',
                          ''spec'', ''rule''] (lower message)"
  then have "contains_keyword [''part'', ''price'', ''schedule'', ''race'', ''event'',
               ''upcoming'', ''cost''] (lower message)"
    by (blast intro: contains_keywordI)
  moreover from a
  have "\<not> contains_keyword [''build'', ''car'', ''setup'', ''recommend''] (lower message)"
    and "\<not> contains_keyword [''rulebook'', ''regulation'', ''legal'', ''allowed'',
           ''requirement'', ''spec'', ''rule''] (lower message)"
    by blast+
  ultimately show "classify_query message = ''parts_or_schedule''"
    unfolding classify_query_chain [of message] by (simp only: if_True if_False)
next
  show "classify_query ''card'' = ''hybrid''"
    by (simp add: classify_query_chain contains_keyword_simps lower_def char_eval)
next
  show "classify_query ''apartment'' = ''parts_or_schedule''"
    by (simp add: classify_query_chain contains_keyword_simps lower_def char_eval)
qed

theorem classify_substring_containment_witness:
  "lower ''My CARDS'' = ''my '' @ ''car'' @ ''ds'' \<and> classify_query ''My CARDS'' = ''hybrid'' \<and>
   lower ''Unruled'' = ''un'' @ ''rule'' @ ''d'' \<and> classify_query ''Unruled'' = ''rules'' \<and>
   lower ''Apartments'' = ''a'' @ ''part'' @ ''ments'' \<and>
   classify_query ''Apartments'' = ''parts_or_schedule''"
  using classify_substring_containment [of "''car''" "''My CARDS''" "''my ''" "''ds''"]
    classify_substring_containment [of "''rule''" "''Unruled''" "''un''" "''d''"]
    classify_substring_containment [of "''part''" "''Apartments''" "''a''" "''ments''"]
  by (simp add: contains_keyword_simps lower_def char_eval)

section \<open>The hybrid synthesis\<close>

text \<open>Stripping a text that starts and ends with a visible character, wrapped in white
  space, gives the text back; the template of the synthesis is such a text.\<close>

lemma strip_core:
  assumes "\<forall>x \<in> set ws1. isspace x" and "\<forall>x \<in> set ws2. isspace x"
    and "\<not> isspace c" and "\<not> isspace d"
  shows "strip (ws1 @ c # mid @ d # ws2) = c # mid @ [d]"
proof -
  have "dropWhile isspace (ws1 @ c # mid @ d # ws2) = c # mid @ d # ws2"
    using assms(1,3) by simp
  moreover have "dropWhile isspace (rev (c # mid @ d # ws2)) = d # rev mid @ [c]"
  proof -
    have "\<And>x. x \<in> set (rev ws2) \<Longrightarrow> isspace x"
      using assms(2) by simp
    then have "dropWhile isspace (rev ws2 @ d # rev mid @ [c])
               = dropWhile isspace (d # rev mid @ [c])"
      by (rule dropWhile_append2)
    then show ?thesis
      using assms(4) by simp
  qed
  ultimately show ?thesis
    by (simp add: strip_def)
qed

lemma strip_template:
  "strip ([CHR 0x0A] @ ''            Based on the rules: '' @ ra
          @ [CHR 0x0A] @ ''            ''
          @ [CHR 0x0A] @ ''            Current data: ''
          @ (''MCP query result for: '' @ message @ '' (placeholder - implement MCP client)'')
          @ [CHR 0x0A] @ ''            '')
   = ''Based on the rules: '' @ ra
     @ [CHR 0x0A] @ ''            '' @ [CHR 0x0A] @ ''            Current data: ''
     @ ''MCP query result for: '' @ message @ '' (placeholder - implement MCP client)''"
proof -
  have "strip ((CHR 0x0A # ''            '') @ CHR ''B'' #
          (''ased on the rules: '' @ ra @ [CHR 0x0A] @ ''            ''
           @ [CHR 0x0A] @ ''            Current data: '' @ ''MCP query result for: '' @ message
           @ '' (placeholder - implement MCP client'') @ CHR '')'' # (CHR 0x0A # ''            ''))
        = CHR ''B'' # (''ased on the rules: '' @ ra @ [CHR 0x0A] @ ''            ''
           @ [CHR 0x0A] @ ''            Current data: '' @ ''MCP query result for: '' @ message
           @ '' (placeholder - implement MCP client'') @ [CHR '')'']"
    by (rule strip_core) (simp_all add: isspace_def)
  then show ?thesis by simp
qed

lemma query_knowledge_base_items:
  "map_of (query_knowledge_base w message) ''answer'' =
     Some (case knowledge_base_reply w message of
             Inr text \<Rightarrow> text
           | Inl e \<Rightarrow> JStr (''Error querying knowledge base: '' @ str_exn w e))"
  "map_of (query_knowledge_base w message) ''sources'' =
     Some (JArr (case knowledge_base_reply w message of
                   Inr text \<Rightarrow> [JStr ''Spec3 Rulebook'']
                 | Inl e \<Rightarrow> []))"
  by (simp_all add: query_knowledge_base_def split: sum.splits)

lemma query_mcp_server_items:
  "map_of (query_mcp_server message) ''answer'' =
     Some (JStr (''MCP query result for: '' @ message
                 @ '' (placeholder - implement MCP client)''))"
  "map_of (query_mcp_server message) ''sources'' = Some (JArr [JStr ''Google Sheets via MCP''])"
  by (simp_all add: query_mcp_server_def)

lemma query_both_sources_eq:
  assumes "map_of (query_knowledge_base w message) ''answer'' = Some ra"
    and "map_of (query_knowledge_base w message) ''sources'' = Some (JArr rs)"
  shows "query_both_sources w message =
     [(''answer'', JStr (''Based on the rules: '' @ py_str w ra
          @ [CHR 0x0A] @ ''            '' @ [CHR 0x0A] @ ''            Current data: ''
          @ ''MCP query result for: '' @ message @ '' (placeholder - implement MCP client)'')),
      (''sources'', JArr (rs @ [JStr ''Google Sheets via MCP'']))]"
  unfolding query_both_sources_def Let_def
  by (simp only: getitem_key.simps assms query_mcp_server_items option.case and_then_def
        sum.case py_add.simps py_str_def json.case strip_template)

lemma to_chat_response_text:
  assumes "map_of d ''answer'' = Some (JStr a)" and "map_of d ''sources'' = Some (JArr xs)"
  shows "to_chat_response w d =
           Inr \<lparr>response = a, sources = xs, timestamp = Some (now_isoformat w)\<rparr>"
  using assms by (simp add: to_chat_response_def ChatResponse_def dict_get_def as_str_def)

text \<open>
  Claim C2. For every message, the synthesized answer of the hybrid path contains the header
  \<open>Based on the rules:\<close> followed by the rules querier's answer and the header
  \<open>Current data:\<close> followed by the dynamic querier's answer. When the remote call of the
  rules querier fails, its answer is the error text, and that text stands in the synthesized
  answer. The synthesized sources are the rules querier's sources followed by the dynamic
  querier's. For a message classified \<open>hybrid\<close> this answer and these sources are the ones of
  the chat response.
\<close>

theorem hybrid_synthesis_both_slots:
  fixes w :: world and message session_id :: string
  defines "rules \<equiv> query_knowledge_base w message"
  defines "data \<equiv> query_mcp_server message"
  defines "both \<equiv> query_both_sources w message"
  shows "\<exists>ra rs da ds answer.
     map_of rules ''answer'' = Some ra \<and> map_of rules ''sources'' = Some (JArr rs) \<and>
     map_of data ''answer'' = Some (JStr da) \<and> map_of data ''sources'' = Some (JArr ds) \<and>
     both = [(''answer'', JStr answer), (''sources'', JArr (rs @ ds))] \<and>
     sublist (''Based on the rules: '' @ py_str w ra) answer \<and>
     sublist (''Current data: '' @ da) answer \<and>
     (\<forall>e. knowledge_base_reply w message = Inl e \<longrightarrow>
          ra = JStr (''Error querying knowledge base: '' @ str_exn w e) \<and>
          sublist (''Error querying knowledge base: '' @ str_exn w e) answer) \<and>
     (classify_query message = ''hybrid'' \<longrightarrow>
        process_message w message session_id =
          Inr \<lparr>response = answer, sources = rs @ ds, timestamp = Some (now_isoformat w)\<rparr>)"
proof -
  define ra where "ra = (case knowledge_base_reply w message of
             Inr text \<Rightarrow> text
           | Inl e \<Rightarrow> JStr (''Error querying knowledge base: '' @ str_exn w e))"
  define rs where "rs = (case knowledge_base_reply w message of
                   Inr text \<Rightarrow> [JStr ''Spec3 Rulebook'']
                 | Inl e \<Rightarrow> [])"
  define da where
    "da = ''MCP query result for: '' @ message @ '' (placeholder - implement MCP client)''"
  define sep where "sep = [CHR 0x0A] @ ''            '' @ [CHR 0x0A] @ ''            ''"
  define answer where
    "answer = ''Based on the rules: '' @ py_str w ra @ sep @ ''Current data: '' @ da"
  have r1: "map_of rules ''answer'' = Some ra" and r2: "map_of rules ''sources'' = Some (JArr rs)"
    unfolding rules_def ra_def rs_def by (rule query_knowledge_base_items)+
  have d1: "map_of data ''answer'' = Some (JStr da)"
    and d2: "map_of data ''sources'' = Some (JArr [JStr ''Google Sheets via MCP''])"
    unfolding data_def da_def by (rule query_mcp_server_items)+
  have b: "both = [(''answer'', JStr answer),
                   (''sources'', JArr (rs @ [JStr ''Google Sheets via MCP'']))]"
    unfolding both_def answer_def sep_def da_def
    using query_both_sources_eq [OF r1 [unfolded rules_def] r2 [unfolded rules_def]]
    by simp
  have s1: "sublist (''Based on the rules: '' @ py_str w ra) answer"
    unfolding answer_def by (metis append.assoc sublist_appendI append_Nil)
  have "answer = (''Based on the rules: '' @ py_str w ra @ sep) @ (''Current data: '' @ da) @ []"
    unfolding answer_def by simp
  then have s2: "sublist (''Current data: '' @ da) answer"
    unfolding sublist_def by blast
  have e: "ra = JStr (''Error querying knowledge base: '' @ str_exn w e) \<and>
           sublist (''Error querying knowledge base: '' @ str_exn w e) answer"
    if "knowledge_base_reply w message = Inl e" for e
  proof -
    from that have ra: "ra = JStr (''Error querying knowledge base: '' @ str_exn w e)"
      by (simp add: ra_def)
    have "answer = ''Based on the rules: '' @ (''Error querying knowledge base: '' @ str_exn w e)
                   @ (sep @ ''Current data: '' @ da)"
      unfolding answer_def ra by (simp add: py_str_def)
    then have "sublist (''Error querying knowledge base: '' @ str_exn w e) answer"
      unfolding sublist_def by blast
    with ra show ?thesis by simp
  qed
  have p: "process_message w message session_id =
          Inr \<lparr>response = answer, sources = rs @ [JStr ''Google Sheets via MCP''],
               timestamp = Some (now_isoformat w)\<rparr>"
    if "classify_query message = ''hybrid''"
  proof -
    from that have "provider_result w message = both"
      by (simp add: provider_result_def both_def)
    then show ?thesis
      by (simp add: process_message_def b to_chat_response_text)
  qed
  from r1 r2 d1 d2 b s1 s2 e p show ?thesis by blast
qed

text \<open>With the model unreachable, the message \<open>Is my car legal?\<close> is answered with both
  headers, the error text of the rules querier and the placeholder of the dynamic one.\<close>

lemma classify_car_legal: "classify_query ''Is my car legal?'' = ''hybrid''"
  by (simp add: classify_query_chain contains_keyword_def str_in_sublist [symmetric]
        lower_def char_eval)

lemma knowledge_base_reply_down:
  "knowledge_base_reply down message = Inl (ClientError ''timed out'')"
  by (simp add: knowledge_base_reply_def down_def and_then_def)

theorem hybrid_synthesis_both_slots_witness:
  "classify_query ''Is my car legal?'' = ''hybrid'' \<and>
   knowledge_base_reply down ''Is my car legal?'' = Inl (ClientError ''timed out'') \<and>
   (\<exists>answer.
      process_message down ''Is my car legal?'' ''s1'' =
        Inr \<lparr>response = answer, sources = [JStr ''Google Sheets via MCP''],
             timestamp = Some ''2024-05-01T12:00:00''\<rparr> \<and>
      sublist ''Based on the rules: Error querying knowledge base: timed out'' answer \<and>
      sublist (''Current data: MCP query result for: Is my car legal?''
               @ '' (placeholder - implement MCP client)'') answer)"
proof -
  let ?m = "''Is my car legal?''"
  from hybrid_synthesis_both_slots [of down ?m "''s1''"]
  obtain ra rs da ds answer where
    r: "map_of (query_knowledge_base down ?m) ''sources'' = Some (JArr rs)"
    and d: "map_of (query_mcp_server ?m) ''answer'' = Some (JStr da)"
      "map_of (query_mcp_server ?m) ''sources'' = Some (JArr ds)"
    and s: "sublist (''Based on the rules: '' @ py_str down ra) answer"
      "sublist (''Current data: '' @ da) answer"
    and e: "\<forall>e. knowledge_base_reply down ?m = Inl e \<longrightarrow>
          ra = JStr (''Error querying knowledge base: '' @ str_exn down e) \<and>
          sublist (''Error querying knowledge base: '' @ str_exn down e) answer"
    and p: "classify_query ?m = ''hybrid'' \<longrightarrow>
        process_message down ?m ''s1'' =
          Inr \<lparr>response = answer, sources = rs @ ds,
               timestamp = Some (now_isoformat down)\<rparr>"
    by blast
  from e knowledge_base_reply_down
  have ra: "ra = JStr (''Error querying knowledge base: '' @ str_exn down (ClientError ''timed out''))"
    by blast
  have rs: "rs = []"
    using r by (simp add: query_knowledge_base_def knowledge_base_reply_down)
  have da: "da = ''MCP query result for: Is my car legal? (placeholder - implement MCP client)''"
    and ds: "ds = [JStr ''Google Sheets via MCP'']"
    using d by (simp_all add: query_mcp_server_def)
  from p classify_car_legal
  have "process_message down ?m ''s1'' =
          Inr \<lparr>response = answer, sources = [JStr ''Google Sheets via MCP''],
               timestamp = Some ''2024-05-01T12:00:00''\<rparr>"
    by (simp add: rs ds down_def)
  moreover from s(1) have "sublist ''Based on the rules: Error querying knowledge base: timed out'' answer"
    by (simp add: ra py_str_def down_def)
  moreover from s(2) have "sublist (''Current data: MCP query result for: Is my car legal?''
               @ '' (placeholder - implement MCP client)'') answer"
    by (simp add: da)
  ultimately show ?thesis
    using classify_car_legal knowledge_base_reply_down by blast
qed

section \<open>Failure of the rules querier\<close>

lemma down_fields:
  "now_isoformat down = ''2024-05-01T12:00:00''"
  "str_exn down (ClientError s) = s"
  "str_exn down (KeyError (JStr k)) = [CHR 0x27] @ k @ [CHR 0x27]"
  "str_json down (JObj []) = ''{}''"
  "environ down k = None"
  "coerce_str down v = None"
  by (simp_all add: down_def)

lemma classify_rule_tires: "classify_query ''What is the rule for legal tires?'' = ''rules''"
  by (simp add: classify_query_chain contains_keyword_def str_in_sublist [symmetric]
        lower_def char_eval)

text \<open>The rules querier also runs on the hybrid path. With the model unreachable, the
  message \<open>Is my car legal?\<close> (hybrid through \<open>car\<close>) makes the rules querier return its
  error text with no sources, and the chat response carries the source of the dynamic
  querier: its list of sources is not empty.\<close>

theorem rules_failure_hybrid_sources_counterexample:
  "knowledge_base_reply down ''Is my car legal?'' = Inl (ClientError ''timed out'') \<and>
   query_knowledge_base down ''Is my car legal?'' =
     [(''answer'', JStr ''Error querying knowledge base: timed out''), (''sources'', JArr [])] \<and>
   process_message down ''Is my car legal?'' ''s1'' =
     Inr \<lparr>response = ''Based on the rules: Error querying knowledge base: timed out''
                @ [CHR 0x0A] @ ''            '' @ [CHR 0x0A]
                @ ''            Current data: MCP query result for: Is my car legal?''
                @ '' (placeholder - implement MCP client)'',
          sources = [JStr ''Google Sheets via MCP''],
          timestamp = Some ''2024-05-01T12:00:00''\<rparr> \<and>
   [JStr ''Google Sheets via MCP''] \<noteq> []"
proof -
  let ?m = "''Is my car legal?''"
  have q: "query_knowledge_base down ?m =
     [(''answer'', JStr ''Error querying knowledge base: timed out''), (''sources'', JArr [])]"
    by (simp add: query_knowledge_base_def knowledge_base_reply_down down_fields)
  have "query_both_sources down ?m =
     [(''answer'', JStr (''Based on the rules: Error querying knowledge base: timed out''
          @ [CHR 0x0A] @ ''            '' @ [CHR 0x0A] @ ''            Current data: ''
          @ ''MCP query result for: '' @ ?m @ '' (placeholder - implement MCP client)'')),
      (''sources'', JArr ([] @ [JStr ''Google Sheets via MCP'']))]"
    using query_both_sources_eq [of down ?m "JStr ''Error querying knowledge base: timed out''" "[]"]
    by (simp add: q py_str_def)
  then have "process_message down ?m ''s1'' =
     Inr \<lparr>response = ''Based on the rules: Error querying knowledge base: timed out''
                @ [CHR 0x0A] @ ''            '' @ [CHR 0x0A]
                @ ''            Current data: MCP query result for: Is my car legal?''
                @ '' (placeholder - implement MCP client)'',
          sources = [JStr ''Google Sheets via MCP''],
          timestamp = Some ''2024-05-01T12:00:00''\<rparr>"
    by (simp add: process_message_def provider_result_def classify_car_legal
          to_chat_response_text down_fields)
  with q knowledge_base_reply_down show ?thesis by simp
qed

text \<open>
  Claim C3, amended. For every message and every failure inside the \<^verbatim>\<open>try\<close> block of the
  rules querier (the remote call, or the extraction of the text from its reply), the querier
  returns the dict whose answer is the non-empty text \<open>Error querying knowledge base: \<close>
  followed by the text of the exception, and whose sources are empty. When the message is
  classified \<open>rules\<close>, the chat response has this answer as its response and no sources. When
  the message is classified \<open>hybrid\<close>, the chat response has a non-empty response and the
  source of the dynamic querier.
\<close>

theorem rules_failure_degrades:
  assumes "knowledge_base_reply w message = Inl e"
  shows "query_knowledge_base w message =
           [(''answer'', JStr (''Error querying knowledge base: '' @ str_exn w e)),
            (''sources'', JArr [])] \<and>
         ''Error querying knowledge base: '' @ str_exn w e \<noteq> [] \<and>
         (classify_query message = ''rules'' \<longrightarrow>
            process_message w message session_id =
              Inr \<lparr>response = ''Error querying knowledge base: '' @ str_exn w e,
                   sources = [], timestamp = Some (now_isoformat w)\<rparr>) \<and>
         (classify_query message = ''hybrid'' \<longrightarrow>
            (\<exists>answer. answer \<noteq> [] \<and>
               process_message w message session_id =
                 Inr \<lparr>response = answer, sources = [JStr ''Google Sheets via MCP''],
                      timestamp = Some (now_isoformat w)\<rparr>))"
proof -
  have q: "query_knowledge_base w message =
           [(''answer'', JStr (''Error querying knowledge base: '' @ str_exn w e)),
            (''sources'', JArr [])]"
    using assms by (simp add: query_knowledge_base_def)
  have r: "process_message w message session_id =
              Inr \<lparr>response = ''Error querying knowledge base: '' @ str_exn w e,
                   sources = [], timestamp = Some (now_isoformat w)\<rparr>"
    if "classify_query message = ''rules''"
    using that by (simp add: process_message_def provider_result_def q to_chat_response_text)
  have h: "\<exists>answer. answer \<noteq> [] \<and>
               process_message w message session_id =
                 Inr \<lparr>response = answer, sources = [JStr ''Google Sheets via MCP''],
                      timestamp = Some (now_isoformat w)\<rparr>"
    if "classify_query message = ''hybrid''"
  proof -
    have "query_both_sources w message =
     [(''answer'', JStr (''Based on the rules: ''
          @ py_str w (JStr (''Error querying knowledge base: '' @ str_exn w e))
          @ [CHR 0x0A] @ ''            '' @ [CHR 0x0A] @ ''            Current data: ''
          @ ''MCP query result for: '' @ message @ '' (placeholder - implement MCP client)'')),
      (''sources'', JArr ([] @ [JStr ''Google Sheets via MCP'']))]"
      by (rule query_both_sources_eq) (simp_all add: q)
    with that show ?thesis
      by (simp add: process_message_def provider_result_def to_chat_response_text)
  qed
  from q r h show ?thesis by simp
qed

theorem rules_failure_degrades_witness:
  "knowledge_base_reply down ''What is the rule for legal tires?'' = Inl (ClientError ''timed out'') \<and>
   classify_query ''What is the rule for legal tires?'' = ''rules'' \<and>
   query_knowledge_base down ''What is the rule for legal tires?'' =
     [(''answer'', JStr ''Error querying knowledge base: timed out''), (''sources'', JArr [])] \<and>
   process_message down ''What is the rule for legal tires?'' ''s1'' =
     Inr \<lparr>response = ''Error querying knowledge base: timed out'', sources = [],
          timestamp = Some ''2024-05-01T12:00:00''\<rparr> \<and>
   classify_query ''Is my car legal?'' = ''hybrid'' \<and>
   (\<exists>answer. answer \<noteq> [] \<and>
      process_message down ''Is my car legal?'' ''s1'' =
        Inr \<lparr>response = answer, sources = [JStr ''Google Sheets via MCP''],
             timestamp = Some ''2024-05-01T12:00:00''\<rparr>)"
  using rules_failure_degrades [OF knowledge_base_reply_down,
          of "''What is the rule for legal tires?''" "''s1''"]
    rules_failure_degrades [OF knowledge_base_reply_down, of "''Is my car legal?''" "''s1''"]
    classify_rule_tires classify_car_legal
    knowledge_base_reply_down [of "''What is the rule for legal tires?''"]
  by (simp add: down_fields)

section \<open>The default answer\<close>

lemma answering_fields:
  "invoke_model (answering p) model_id request = Inr p"
  "now_isoformat (answering p) = ''2024-05-01T12:00:00''"
  "str_json (answering p) (JObj []) = ''{}''"
  "str_exn (answering p) (KeyError (JStr k)) = [CHR 0x27] @ k @ [CHR 0x27]"
  "coerce_str (answering p) v = None"
  by (simp_all add: answering_def down_def)

lemma first_text_claude_payload: "first_text (claude_payload t) = Inr (JStr t)"
  by (simp add: first_text_def claude_payload_def and_then_def)

lemma classify_the_rule: "classify_query ''What is the rule?'' = ''rules''"
  by (simp add: classify_query_chain contains_keyword_def str_in_sublist [symmetric]
        lower_def char_eval)

lemma provider_result_has_answer: "map_of (provider_result w message) ''answer'' \<noteq> None"
proof -
  have "map_of (query_both_sources w message) ''answer'' \<noteq> None"
    using query_both_sources_eq [OF query_knowledge_base_items, of w message] by simp
  moreover have "map_of (handle_general_query w message) ''answer'' \<noteq> None"
    by (simp add: handle_general_query_def split: sum.splits)
  ultimately show ?thesis
    by (simp add: provider_result_def Let_def query_knowledge_base_items
          query_mcp_server_items)
qed

text \<open>A model reply whose first segment has the empty text makes the rules querier answer
  with the empty text. The dict has the key \<open>answer\<close>, so \<^verbatim>\<open>get\<close> returns its value: the
  response of the chat response is empty, not the default text.\<close>

theorem empty_answer_not_defaulted_counterexample:
  "query_knowledge_base (answering (claude_payload [])) ''What is the rule?'' =
     [(''answer'', JStr []), (''sources'', JArr [JStr ''Spec3 Rulebook''])] \<and>
   process_message (answering (claude_payload [])) ''What is the rule?'' ''s1'' =
     Inr \<lparr>response = [], sources = [JStr ''Spec3 Rulebook''],
          timestamp = Some ''2024-05-01T12:00:00''\<rparr> \<and>
   [] \<noteq> ''Sorry, I could not find an answer.''"
proof -
  have q: "query_knowledge_base (answering (claude_payload [])) ''What is the rule?'' =
     [(''answer'', JStr []), (''sources'', JArr [JStr ''Spec3 Rulebook''])]"
    by (simp add: query_knowledge_base_def knowledge_base_reply_def answering_fields
          and_then_def first_text_claude_payload)
  then show ?thesis
    by (simp add: process_message_def provider_result_def classify_the_rule
          to_chat_response_text answering_fields)
qed

text \<open>
  Claim C4, amended. \<^verbatim>\<open>process_message\<close> builds the chat response from the dict of the
  querier. The response is the default text \<open>Sorry, I could not find an answer.\<close> when the
  dict has no key \<open>answer\<close> (no querier returns such a dict); when the key is there with a
  text, the response is that text, also when the text is empty. Every chat response that is
  built carries the timestamp of the clock.
\<close>

theorem chat_response_default_only_when_missing:
  "process_message w message session_id = to_chat_response w (provider_result w message) \<and>
   map_of (provider_result w message) ''answer'' \<noteq> None \<and>
   (map_of d ''answer'' = None \<and> dict_get d ''sources'' (JArr []) = JArr xs \<longrightarrow>
      to_chat_response w d =
        Inr \<lparr>response = ''Sorry, I could not find an answer.'', sources = xs,
             timestamp = Some (now_isoformat w)\<rparr>) \<and>
   (map_of d ''answer'' = Some (JStr a) \<and> dict_get d ''sources'' (JArr []) = JArr xs \<longrightarrow>
      to_chat_response w d =
        Inr \<lparr>response = a, sources = xs, timestamp = Some (now_isoformat w)\<rparr>) \<and>
   (to_chat_response w d = Inr r \<longrightarrow> timestamp r = Some (now_isoformat w))"
proof (intro conjI impI)
  show "process_message w message session_id = to_chat_response w (provider_result w message)"
    by (simp add: process_message_def)
  show "map_of (provider_result w message) ''answer'' \<noteq> None"
    by (rule provider_result_has_answer)
  show "to_chat_response w d =
        Inr \<lparr>response = ''Sorry, I could not find an answer.'', sources = xs,
             timestamp = Some (now_isoformat w)\<rparr>"
    if "map_of d ''answer'' = None \<and> dict_get d ''sources'' (JArr []) = JArr xs"
    using that by (simp add: to_chat_response_def ChatResponse_def dict_get_def as_str_def)
  show "to_chat_response w d =
        Inr \<lparr>response = a, sources = xs, timestamp = Some (now_isoformat w)\<rparr>"
    if "map_of d ''answer'' = Some (JStr a) \<and> dict_get d ''sources'' (JArr []) = JArr xs"
    using that by (simp add: to_chat_response_def ChatResponse_def dict_get_def as_str_def)
  show "timestamp r = Some (now_isoformat w)" if "to_chat_response w d = Inr r"
    using that
    by (auto simp: to_chat_response_def ChatResponse_def split: option.splits json.splits)
qed

theorem chat_response_default_only_when_missing_witness:
  "to_chat_response down [(''sources'', JArr [])] =
     Inr \<lparr>response = ''Sorry, I could not find an answer.'', sources = [],
          timestamp = Some ''2024-05-01T12:00:00''\<rparr> \<and>
   to_chat_response down [(''answer'', JStr []), (''sources'', JArr [JStr ''Spec3 Rulebook''])] =
     Inr \<lparr>response = [], sources = [JStr ''Spec3 Rulebook''],
          timestamp = Some ''2024-05-01T12:00:00''\<rparr> \<and>
   to_chat_response down [(''answer'', JStr ''Slicks are legal.'')] =
     Inr \<lparr>response = ''Slicks are legal.'', sources = [],
          timestamp = Some ''2024-05-01T12:00:00''\<rparr>"
  using chat_response_default_only_when_missing
          [of down "''x''" "''s1''" "[(''sources'', JArr [])]" "[]"]
    chat_response_default_only_when_missing
          [of down "''x''" "''s1''" "[(''answer'', JStr []), (''sources'', JArr [JStr ''Spec3 Rulebook''])]"
              "[JStr ''Spec3 Rulebook'']" "[]"]
    chat_response_default_only_when_missing
          [of down "''x''" "''s1''" "[(''answer'', JStr ''Slicks are legal.'')]" "[]"
              "''Slicks are legal.''"]
  by (simp add: dict_get_def down_fields)

section \<open>The direct model invocation of the Lambda\<close>

text \<open>On a dict, \<^verbatim>\<open>in\<close> and the subscript agree: the key is there exactly when
  \<^const>\<open>map_of\<close> finds a value.\<close>

lemma py_in_obj: "py_in k (JObj kvs) = Inr (map_of kvs k \<noteq> None)"
  by (simp add: map_of_eq_None_iff)



lemma parse_nova_completion:
  assumes "map_of kvs ''content'' = None \<or> map_of kvs ''content'' = Some (JArr [])"
    and "map_of kvs ''completion'' = Some v"
  shows "parse_nova w (JObj kvs) = Inr v"
  using assms by (auto simp: parse_nova_def py_in_obj and_then_def simp del: py_in.simps)



lemma fallback_response_cases:
  fixes w message
  defines "model_id \<equiv> extract_model_id (environ_get w ''MODEL_ARN'')"
  shows "str_in ''nova-premier'' model_id \<Longrightarrow>
           fallback_response w message =
             (case and_then (invoke_model w model_id (nova_request message)) (parse_nova w) of
                Inr result \<Rightarrow> result | Inl e \<Rightarrow> apology w e)"
    and "\<not> str_in ''nova-premier'' model_id \<Longrightarrow>
           fallback_response w message =
             (case and_then (invoke_model w model_id (claude_request message)) first_text of
                Inr result \<Rightarrow> result | Inl e \<Rightarrow> apology w e)"
  unfolding model_id_def by (simp_all add: fallback_response_def Let_def)


lemma with_env_fields:
  "environ_get (with_env k v w) k = v"
  "k' \<noteq> k \<Longrightarrow> environ_get (with_env k v w) k' = environ_get w k'"
  "invoke_model (with_env k v w) = invoke_model w"
  "retrieve_and_generate (with_env k v w) = retrieve_and_generate w"
  "str_exn (with_env k v w) = str_exn w"
  "str_json (with_env k v w) = str_json w"
  "json_loads (with_env k v w) = json_loads w"
  "json_dumps (with_env k v w) = json_dumps w"
  by (simp_all add: with_env_def environ_get_def)

lemma model_id_claude_sonnet:
  "extract_model_id ''anthropic.claude-3-sonnet-20240229-v1:0'' =
     ''anthropic.claude-3-sonnet-20240229-v1:0''"
  "\<not> str_in ''nova-premier'' ''anthropic.claude-3-sonnet-20240229-v1:0''"
  by (simp_all add: extract_model_id_def)

lemma model_id_nova:
  "extract_model_id ''us.amazon.nova-premier-v1:0'' = ''us.amazon.nova-premier-v1:0''"
  "str_in ''nova-premier'' ''us.amazon.nova-premier-v1:0''"
  by (simp_all add: extract_model_id_def)




section \<open>The model identifier and the knowledge-base gate\<close>

text \<open>\<^verbatim>\<open>fallback_response\<close> reads the environment, the model client and the two
  stringifications, and nothing else of the world.\<close>

lemma fallback_response_same:
  assumes "environ w' = environ w" and "invoke_model w' = invoke_model w"
    and "str_json w' = str_json w" and "str_exn w' = str_exn w"
  shows "fallback_response w' message = fallback_response w message"
proof -
  have "py_str w' v = py_str w v" for v
    by (cases v) (simp_all add: py_str_def assms)
  then have s: "py_str w' = py_str w"
    by (rule ext)
  have p: "parse_nova w' = parse_nova w"
    unfolding parse_nova_def s by (rule refl)
  have a: "apology w' = apology w"
    unfolding apology_def assms by (rule refl)
  show ?thesis
    unfolding fallback_response_def environ_get_def p a assms by (rule refl)
qed

lemma fallback_response_ignores_kb:
  "fallback_response (w\<lparr>retrieve_and_generate := r\<rparr>) message = fallback_response w message"
  by (rule fallback_response_same) simp_all

lemma handler_ok:
  assumes "dict_get ev ''body'' (JStr ''{}'') = JStr raw"
    and "json_loads w raw = Inr (JObj req)"
  shows "handler w (JObj ev) =
     \<lparr>statusCode = 200,
      headers = [(''Content-Type'', ''application/json''),
                 (''Access-Control-Allow-Origin'', ''*''),
                 (''Access-Control-Allow-Headers'', ''Content-Type''),
                 (''Access-Control-Allow-Methods'', ''POST, OPTIONS'')],
      body = json_dumps w (JObj
               [(''response'',
                 process_message_lambda w
                   (if \<not> truthy (dict_get req ''message'' (JStr [])) \<and>
                       map_of ev ''messages'' \<noteq> None
                    then dict_get ev ''messages'' (JStr [])
                    else dict_get req ''message'' (JStr []))
                   (dict_get req ''session_id'' (JStr ''default''))),
                (''session_id'', dict_get req ''session_id'' (JStr ''default''))])\<rparr>"
  using assms
  by (simp add: handler_def and_then_def py_in_obj del: py_in.simps)

text \<open>
  Claim C10. For every model ARN that starts with \<open>arn:aws:bedrock:\<close> and contains
  \<open>inference-profile\<close>, the model identifier is the constant \<open>us.amazon.nova-premier-v1:0\<close>,
  whatever model the profile names. With that ARN configured, \<^verbatim>\<open>fallback_response\<close>
  invokes the model under this identifier with the Nova request and parses the reply as a
  Nova reply.
\<close>

theorem inference_profile_forces_nova:
  assumes "prefix ''arn:aws:bedrock:'' model_arn" and "sublist ''inference-profile'' model_arn"
  shows "extract_model_id model_arn = ''us.amazon.nova-premier-v1:0'' \<and>
    (environ w ''MODEL_ARN'' = Some model_arn \<longrightarrow>
       fallback_response w message =
         (case and_then (invoke_model w ''us.amazon.nova-premier-v1:0'' (nova_request message))
                 (parse_nova w)
          of Inr result \<Rightarrow> result | Inl e \<Rightarrow> apology w e))"
proof -
  have m: "extract_model_id model_arn = ''us.amazon.nova-premier-v1:0''"
    using assms by (simp add: extract_model_id_def str_in_sublist)
  have "fallback_response w message =
         (case and_then (invoke_model w ''us.amazon.nova-premier-v1:0'' (nova_request message))
                 (parse_nova w)
          of Inr result \<Rightarrow> result | Inl e \<Rightarrow> apology w e)"
    if "environ w ''MODEL_ARN'' = Some model_arn"
  proof -
    from that have "extract_model_id (environ_get w ''MODEL_ARN'') = ''us.amazon.nova-premier-v1:0''"
      by (simp add: environ_get_def m)
    then show ?thesis
      using fallback_response_cases(1) [of w message] by (simp add: model_id_nova)
  qed
  with m show ?thesis by simp
qed

text \<open>An inference profile that names a Claude model: the reply is read as a Nova reply,
  which accepts the key \<open>completion\<close>.\<close>

theorem inference_profile_forces_nova_witness:
  "prefix ''arn:aws:bedrock:''
     ''arn:aws:bedrock:us-east-1:123456789012:inference-profile/us.anthropic.claude-3-5-sonnet-20241022-v2:0'' \<and>
   sublist ''inference-profile''
     ''arn:aws:bedrock:us-east-1:123456789012:inference-profile/us.anthropic.claude-3-5-sonnet-20241022-v2:0'' \<and>
   extract_model_id
     ''arn:aws:bedrock:us-east-1:123456789012:inference-profile/us.anthropic.claude-3-5-sonnet-20241022-v2:0''
     = ''us.amazon.nova-premier-v1:0'' \<and>
   fallback_response
     (with_env ''MODEL_ARN''
        ''arn:aws:bedrock:us-east-1:123456789012:inference-profile/us.anthropic.claude-3-5-sonnet-20241022-v2:0''
        (answering (JObj [(''completion'', JStr ''Hi there'')])))
     (JStr ''Hello'') = JStr ''Hi there''"
proof -
  let ?arn = "''arn:aws:bedrock:us-east-1:123456789012:inference-profile/us.anthropic.claude-3-5-sonnet-20241022-v2:0''"
  let ?w = "with_env ''MODEL_ARN'' ?arn (answering (JObj [(''completion'', JStr ''Hi there'')]))"
  have p: "prefix ''arn:aws:bedrock:'' ?arn"
    by simp
  have s: "sublist ''inference-profile'' ?arn"
    by (simp add: str_in_sublist [symmetric])
  have e: "environ ?w ''MODEL_ARN'' = Some ?arn"
    by (simp add: with_env_def)
  have "parse_nova ?w (JObj [(''completion'', JStr ''Hi there'')]) = Inr (JStr ''Hi there'')"
    by (rule parse_nova_completion) simp_all
  with inference_profile_forces_nova [OF p s, of ?w "JStr ''Hello''"] e p s
  show ?thesis
    by (simp add: with_env_fields answering_fields and_then_def)
qed

text \<open>
  Claim C6. When \<^verbatim>\<open>KNOWLEDGE_BASE_ID\<close> is absent from the environment or empty, the
  Lambda's \<^verbatim>\<open>process_message\<close> returns the result of \<^verbatim>\<open>fallback_response\<close> for every
  message, whatever the knowledge-base client would do; a request with a non-empty text
  message is then answered with status 200 and that result in its body.
\<close>

theorem no_knowledge_base_falls_back:
  assumes "environ w ''KNOWLEDGE_BASE_ID'' = None \<or> environ w ''KNOWLEDGE_BASE_ID'' = Some []"
  shows "process_message_lambda w message session_id = fallback_response w message \<and>
         process_message_lambda (w\<lparr>retrieve_and_generate := r\<rparr>) message session_id
           = fallback_response w message \<and>
         (dict_get ev ''body'' (JStr ''{}'') = JStr raw \<and> json_loads w raw = Inr (JObj req) \<and>
          dict_get req ''message'' (JStr []) = JStr (c # cs)
          \<longrightarrow> handler w (JObj ev) =
               \<lparr>statusCode = 200,
                headers = [(''Content-Type'', ''application/json''),
                           (''Access-Control-Allow-Origin'', ''*''),
                           (''Access-Control-Allow-Headers'', ''Content-Type''),
                           (''Access-Control-Allow-Methods'', ''POST, OPTIONS'')],
                body = json_dumps w (JObj
                         [(''response'', fallback_response w (JStr (c # cs))),
                          (''session_id'', dict_get req ''session_id'' (JStr ''default''))])\<rparr>)"
proof -
  have k: "environ_get w ''KNOWLEDGE_BASE_ID'' = []"
    using assms by (auto simp: environ_get_def)
  then have a: "process_message_lambda w message session_id = fallback_response w message"
    for message session_id
    by (simp add: process_message_lambda_def)
  from k have "environ_get (w\<lparr>retrieve_and_generate := r\<rparr>) ''KNOWLEDGE_BASE_ID'' = []"
    by (simp add: environ_get_def)
  then have b: "process_message_lambda (w\<lparr>retrieve_and_generate := r\<rparr>) message session_id
           = fallback_response w message"
    by (simp add: process_message_lambda_def fallback_response_ignores_kb)
  show ?thesis
    by (auto simp: a b handler_ok)
qed

lemma with_parse_fields:
  "json_loads (with_parse raw v w) raw = Inr v"
  "environ_get (with_parse raw v w) = environ_get w"
  "environ (with_parse raw v w) = environ w"
  "invoke_model (with_parse raw v w) = invoke_model w"
  "str_exn (with_parse raw v w) = str_exn w"
  "str_json (with_parse raw v w) = str_json w"
  "json_dumps (with_parse raw v w) = json_dumps w"
  by (simp_all add: with_parse_def environ_get_def fun_eq_iff)

lemma answering_dumps: "json_dumps (answering p) = json_dumps down"
  by (simp add: answering_def)

lemma fallback_response_with_parse:
  "fallback_response (with_parse raw v w) message = fallback_response w message"
  by (rule fallback_response_same) (simp_all add: with_parse_fields)

lemma fallback_response_claude_hi:
  "fallback_response
     (with_env ''MODEL_ARN'' ''anthropic.claude-3-sonnet-20240229-v1:0''
        (answering (claude_payload ''Hi there''))) message = JStr ''Hi there''"
  by (simp add: fallback_response_cases(2) with_env_fields model_id_claude_sonnet
        answering_fields and_then_def first_text_claude_payload)

theorem no_knowledge_base_falls_back_witness:
  "environ (with_parse hello_body (JObj [(''message'', JStr ''Hello'')])
             (with_env ''MODEL_ARN'' ''anthropic.claude-3-sonnet-20240229-v1:0''
                (answering (claude_payload ''Hi there'')))) ''KNOWLEDGE_BASE_ID'' = None \<and>
   process_message_lambda
     (with_parse hello_body (JObj [(''message'', JStr ''Hello'')])
        (with_env ''MODEL_ARN'' ''anthropic.claude-3-sonnet-20240229-v1:0''
           (answering (claude_payload ''Hi there''))))
     (JStr ''Hello'') (JStr ''default'') = JStr ''Hi there'' \<and>
   handler
     (with_parse hello_body (JObj [(''message'', JStr ''Hello'')])
        (with_env ''MODEL_ARN'' ''anthropic.claude-3-sonnet-20240229-v1:0''
           (answering (claude_payload ''Hi there''))))
     (JObj [(''body'', JStr hello_body)]) =
     \<lparr>statusCode = 200,
      headers = [(''Content-Type'', ''application/json''),
                 (''Access-Control-Allow-Origin'', ''*''),
                 (''Access-Control-Allow-Headers'', ''Content-Type''),
                 (''Access-Control-Allow-Methods'', ''POST, OPTIONS'')],
      body = json_dumps down (JObj [(''response'', JStr ''Hi there''),
                                    (''session_id'', JStr ''default'')])\<rparr>"
proof -
  let ?w = "with_parse hello_body (JObj [(''message'', JStr ''Hello'')])
        (with_env ''MODEL_ARN'' ''anthropic.claude-3-sonnet-20240229-v1:0''
           (answering (claude_payload ''Hi there'')))"
  have k: "environ ?w ''KNOWLEDGE_BASE_ID'' = None"
    by (simp add: with_parse_fields with_env_def answering_def down_def)
  then have k': "environ ?w ''KNOWLEDGE_BASE_ID'' = None \<or> environ ?w ''KNOWLEDGE_BASE_ID'' = Some []"
    by simp
  from no_knowledge_base_falls_back [OF k', of "JStr ''Hello''" "JStr ''default''" _
         "[(''body'', JStr hello_body)]" hello_body "[(''message'', JStr ''Hello'')]"
         "CHR ''H''" "''ello''"] k
  show ?thesis
    by (simp add: dict_get_def with_parse_fields fallback_response_with_parse
          fallback_response_claude_hi with_env_fields answering_dumps)
qed

section \<open>The session identifier\<close>

text \<open>
  Claim C7. The Lambda handler is the boundary that echoes the session identifier. For a
  request whose body parses to a dict, the value under \<open>session_id\<close> is passed to
  \<^verbatim>\<open>process_message\<close> and put into the response body as it is; when the body has no
  \<open>session_id\<close>, the value passed and echoed is the text \<open>default\<close>. The request model of
  the standalone server keeps a supplied text as it is and takes \<open>default\<close> for an omitted
  one.
\<close>

theorem handler_echoes_session_id:
  fixes w :: world and ev req :: pydict
  assumes "dict_get ev ''body'' (JStr ''{}'') = JStr raw" and "json_loads w raw = Inr (JObj req)"
  defines "user_message \<equiv>
             (if \<not> truthy (dict_get req ''message'' (JStr [])) \<and> map_of ev ''messages'' \<noteq> None
              then dict_get ev ''messages'' (JStr [])
              else dict_get req ''message'' (JStr []))"
  shows
   "(map_of req ''session_id'' = Some sid \<longrightarrow>
       handler w (JObj ev) =
         \<lparr>statusCode = 200,
          headers = [(''Content-Type'', ''application/json''),
                     (''Access-Control-Allow-Origin'', ''*''),
                     (''Access-Control-Allow-Headers'', ''Content-Type''),
                     (''Access-Control-Allow-Methods'', ''POST, OPTIONS'')],
          body = json_dumps w (JObj
                   [(''response'', process_message_lambda w user_message sid),
                    (''session_id'', sid)])\<rparr>) \<and>
    (map_of req ''session_id'' = None \<longrightarrow>
       handler w (JObj ev) =
         \<lparr>statusCode = 200,
          headers = [(''Content-Type'', ''application/json''),
                     (''Access-Control-Allow-Origin'', ''*''),
                     (''Access-Control-Allow-Headers'', ''Content-Type''),
                     (''Access-Control-Allow-Methods'', ''POST, OPTIONS'')],
          body = json_dumps w (JObj
                   [(''response'', process_message_lambda w user_message (JStr ''default'')),
                    (''session_id'', JStr ''default'')])\<rparr>) \<and>
    (map_of req ''message'' = Some (JStr m) \<and> map_of req ''session_id'' = Some (JStr s) \<longrightarrow>
       ChatMessage_of w req = Inr (ChatMessage m s)) \<and>
    (map_of req ''message'' = Some (JStr m) \<and> map_of req ''session_id'' = None \<longrightarrow>
       ChatMessage_of w req = Inr (ChatMessage m ''default''))"
  unfolding user_message_def
  by (simp add: handler_ok [OF assms(1,2)] dict_get_def ChatMessage_of_def as_str_def)

theorem handler_echoes_session_id_witness:
  "handler
     (with_parse hello_session_body
        (JObj [(''message'', JStr ''Hello''), (''session_id'', JStr ''abc-123'')])
        (with_env ''MODEL_ARN'' ''anthropic.claude-3-sonnet-20240229-v1:0''
           (answering (claude_payload ''Hi there''))))
     (JObj [(''body'', JStr hello_session_body)]) =
     \<lparr>statusCode = 200,
      headers = [(''Content-Type'', ''application/json''),
                 (''Access-Control-Allow-Origin'', ''*''),
                 (''Access-Control-Allow-Headers'', ''Content-Type''),
                 (''Access-Control-Allow-Methods'', ''POST, OPTIONS'')],
      body = json_dumps down (JObj [(''response'', JStr ''Hi there''),
                                    (''session_id'', JStr ''abc-123'')])\<rparr> \<and>
   handler
     (with_parse hello_body (JObj [(''message'', JStr ''Hello'')])
        (with_env ''MODEL_ARN'' ''anthropic.claude-3-sonnet-20240229-v1:0''
           (answering (claude_payload ''Hi there''))))
     (JObj [(''body'', JStr hello_body)]) =
     \<lparr>statusCode = 200,
      headers = [(''Content-Type'', ''application/json''),
                 (''Access-Control-Allow-Origin'', ''*''),
                 (''Access-Control-Allow-Headers'', ''Content-Type''),
                 (''Access-Control-Allow-Methods'', ''POST, OPTIONS'')],
      body = json_dumps down (JObj [(''response'', JStr ''Hi there''),
                                    (''session_id'', JStr ''default'')])\<rparr> \<and>
   ChatMessage_of down [(''message'', JStr ''Hello''), (''session_id'', JStr ''abc-123'')] =
     Inr (ChatMessage ''Hello'' ''abc-123'') \<and>
   ChatMessage_of down [(''message'', JStr ''Hello'')] = Inr (ChatMessage ''Hello'' ''default'')"
proof -
  let ?base = "with_env ''MODEL_ARN'' ''anthropic.claude-3-sonnet-20240229-v1:0''
                 (answering (claude_payload ''Hi there''))"
  let ?req1 = "[(''message'', JStr ''Hello''), (''session_id'', JStr ''abc-123'')]"
  let ?req2 = "[(''message'', JStr ''Hello'')]"
  have p: "process_message_lambda (with_parse raw v ?base) message sid = JStr ''Hi there''"
    for raw v message sid
    by (simp add: process_message_lambda_def with_parse_fields with_env_fields
          answering_def [THEN arg_cong, of environ] down_fields environ_get_def
          fallback_response_with_parse fallback_response_claude_hi
          with_env_def [THEN arg_cong, of environ])
  from handler_echoes_session_id
         [of "[(''body'', JStr hello_session_body)]" hello_session_body
             "with_parse hello_session_body (JObj ?req1) ?base" ?req1 "JStr ''abc-123''"]
       handler_echoes_session_id
         [of "[(''body'', JStr hello_body)]" hello_body
             "with_parse hello_body (JObj ?req2) ?base" ?req2]
       handler_echoes_session_id
         [of "[(''body'', JStr hello_session_body)]" hello_session_body
             "with_parse hello_session_body (JObj ?req1) down" ?req1 _ "''Hello''" "''abc-123''"]
       handler_echoes_session_id
         [of "[(''body'', JStr hello_body)]" hello_body
             "with_parse hello_body (JObj ?req2) down" ?req2 _ "''Hello''"]
  show ?thesis
    by (simp add: dict_get_def with_parse_fields with_env_fields answering_dumps p
          ChatMessage_of_def as_str_def)
qed

end
